theory Spec2Isabelle
  imports Main "HOL-Library.Char_ord" "HOL-Library.List_Lexorder" "HOL-Library.Multiset"
begin

section \<open>Data model of the dashboard (src/pages/DashboardOverview.tsx)\<close>

text \<open>
  The five record collections of the view. Each record of the data service carries a
  \<open>record_id\<close> and a bag \<open>fields\<close> of optional attributes; the bag is flattened here
  and only the attributes the view reads are kept. An optional field is an \<open>option\<close>.
  The identifier and the name occur in several record types, so they carry the first
  letter of their collection. A price is a JavaScript number, a double. The model leaves
  the type of numbers open: it is the type parameter \<open>'n\<close>, with an addition and a zero
  of which no law is assumed, so that what is proved holds of the addition of doubles.
\<close>

record Dozenten =
  d_record_id :: string
  d_name :: "string option"

record Raeume =
  r_record_id :: string

record Teilnehmer =
  t_record_id :: string
  t_name :: "string option"

record 'n Kurse =
  k_record_id :: string
  titel :: "string option"
  preis :: "'n option"
  enddatum :: "string option"
  dozent :: "string option"

record Anmeldungen =
  a_record_id :: string
  teilnehmer :: "string option"
  kurs :: "string option"
  anmeldedatum :: "string option"
  bezahlt :: "bool option"

subsection \<open>JavaScript operators on optional values\<close>

text \<open>\<open>v || d\<close> on an optional string: the absent value and the empty string are falsy.\<close>

definition str_or :: "string option \<Rightarrow> string \<Rightarrow> string" where
  "str_or v d = (case v of None \<Rightarrow> d | Some s \<Rightarrow> if s = [] then d else s)"

text \<open>
  \<open>v || d\<close> on an optional number: the absent value and the falsy numbers (for doubles
  0, -0 and NaN) give \<open>d\<close>. Which numbers are falsy is the parameter \<open>falsy\<close>.
\<close>

definition num_or :: "('n \<Rightarrow> bool) \<Rightarrow> 'n option \<Rightarrow> 'n \<Rightarrow> 'n" where
  "num_or falsy v d = (case v of None \<Rightarrow> d | Some n \<Rightarrow> if falsy n then d else n)"

text \<open>Truthiness of an optional boolean, as \<open>filter(a => a.fields.bezahlt)\<close> reads it.\<close>

definition truthy_bool :: "bool option \<Rightarrow> bool" where
  "truthy_bool v = (case v of None \<Rightarrow> False | Some b \<Rightarrow> b)"

text \<open>\<open>o?.f\<close>: the field of a record that may be absent.\<close>

definition opt_field :: "'a option \<Rightarrow> ('a \<Rightarrow> 'b option) \<Rightarrow> 'b option" where
  "opt_field r f = (case r of None \<Rightarrow> None | Some x \<Rightarrow> f x)"

subsection \<open>The identifier extractor\<close>

text \<open>
  Modelled from the spec: \<open>extractRecordId\<close> is imported from the service module, which is
  not among the sources. The spec gives its contract: the result is absent if the input
  is absent or empty or does not contain a recognizable identifier pattern, otherwise
  it is the extracted identifier. The pattern is not described, so the recognizer is the
  parameter \<open>pat\<close>.
\<close>

definition extractRecordId :: "(string \<Rightarrow> string option) \<Rightarrow> string option \<Rightarrow> string option" where
  "extractRecordId pat ref =
     (case ref of None \<Rightarrow> None | Some s \<Rightarrow> if s = [] then None else pat s)"

text \<open>
  The aggregations below take the extractor as the parameter \<open>ext\<close>, so that what is
  proved of them holds for whatever the service module's extractor computes.
\<close>

type_synonym extractor = "string option \<Rightarrow> string option"

section \<open>Aggregations\<close>

subsection \<open>Total revenue\<close>

text \<open>
  \<^verbatim>\<open>anmeldungen.reduce((sum, a) => {
    const kursId = extractRecordId(a.fields.kurs);
    const kurs = kurse.find(k => k.record_id === kursId);
    return sum + (kurs?.fields.preis || 0);
  }, 0)\<close>
  \<open>find\<close> returns the first course whose identifier is the extracted one; an absent
  identifier equals no \<open>record_id\<close>.
\<close>

definition findKurs :: "'n Kurse list \<Rightarrow> string option \<Rightarrow> 'n Kurse option" where
  "findKurs kurse kid = find (\<lambda>k. Some (k_record_id k) = kid) kurse"

definition totalRevenue ::
  "('n \<Rightarrow> bool) \<Rightarrow> extractor \<Rightarrow> ('n::{plus,zero}) Kurse list \<Rightarrow> Anmeldungen list \<Rightarrow> 'n" where
  "totalRevenue falsy ext kurse anmeldungen =
     foldl (\<lambda>sum a.
        let kursId = ext (kurs a);
            kurs' = findKurs kurse kursId
        in sum + num_or falsy (opt_field kurs' preis) 0) 0 anmeldungen"

text \<open>
  What the spec says one enrollment adds: the price of the course its reference
  resolves to, and 0 when it resolves to none (or the course has no price, or a falsy
  one: 0, and for doubles NaN).
\<close>

definition spec_contribution ::
  "('n \<Rightarrow> bool) \<Rightarrow> extractor \<Rightarrow> ('n::zero) Kurse list \<Rightarrow> Anmeldungen \<Rightarrow> 'n" where
  "spec_contribution falsy ext kurse a =
     (case ext (kurs a) of
        None \<Rightarrow> 0
      | Some kid \<Rightarrow>
          (case filter (\<lambda>k. k_record_id k = kid) kurse of
             [] \<Rightarrow> 0
           | k # _ \<Rightarrow> (case preis k of None \<Rightarrow> 0 | Some p \<Rightarrow> if falsy p then 0 else p)))"

text \<open>
  The sum of a list of numbers as the program takes it: from 0, adding the elements
  from left to right.
\<close>

definition left_sum :: "('n::{plus,zero}) list \<Rightarrow> 'n" where
  "left_sum ns = foldl (+) 0 ns"

subsection \<open>Paid and unpaid counts\<close>

text \<open>
  \<^verbatim>\<open>const paidCount = anmeldungen.filter(a => a.fields.bezahlt).length;
  const unpaidCount = anmeldungen.length - paidCount;\<close>
  The difference is a JavaScript number, so it is an \<open>int\<close> here and nothing is truncated.
\<close>

definition paidCount :: "Anmeldungen list \<Rightarrow> nat" where
  "paidCount anmeldungen = length (filter (\<lambda>a. truthy_bool (bezahlt a)) anmeldungen)"

definition unpaidCount :: "Anmeldungen list \<Rightarrow> int" where
  "unpaidCount anmeldungen = int (length anmeldungen) - int (paidCount anmeldungen)"

subsection \<open>Active courses\<close>

text \<open>
  \<^verbatim>\<open>kurse.filter(k => {
    if (!k.fields.enddatum) return false;
    return isAfter(parseISO(k.fields.enddatum), new Date());
  })\<close>
  \<open>parseISO\<close> and \<open>isAfter\<close> belong to the date library. A parsed date is its time value
  in milliseconds, or \<open>None\<close> for an invalid date; the parser is the parameter \<open>parseISO\<close>
  and the clock reading \<open>new Date()\<close> is the parameter \<open>now\<close>. \<open>isAfter\<close> compares
  time values, and no comparison with an invalid date holds.
\<close>

definition isAfter :: "int option \<Rightarrow> int \<Rightarrow> bool" where
  "isAfter date dateToCompare = (case date of None \<Rightarrow> False | Some t \<Rightarrow> dateToCompare < t)"

definition isActive :: "(string \<Rightarrow> int option) \<Rightarrow> int \<Rightarrow> 'n Kurse \<Rightarrow> bool" where
  "isActive parseISO now k =
     (case enddatum k of
        None \<Rightarrow> False
      | Some e \<Rightarrow> if e = [] then False else isAfter (parseISO e) now)"

definition activeKurse :: "(string \<Rightarrow> int option) \<Rightarrow> int \<Rightarrow> 'n Kurse list \<Rightarrow> 'n Kurse list" where
  "activeKurse parseISO now kurse = filter (isActive parseISO now) kurse"

subsection \<open>Courses per instructor\<close>

text \<open>
  \<open>s.split(' ')\<close>: the pieces of \<open>s\<close> between occurrences of the separator; the result is
  never empty, and a separator at the start gives an empty first piece.
\<close>

fun split :: "char \<Rightarrow> string \<Rightarrow> string list" where
  "split sep [] = [[]]"
| "split sep (c # cs) =
     (if c = sep then [] # split sep cs
      else (case split sep cs of [] \<Rightarrow> [[c]] | t # ts \<Rightarrow> (c # t) # ts))"

text \<open>\<open>xs[0]\<close>: the first element, absent for an empty array.\<close>

definition first_elem :: "'a list \<Rightarrow> 'a option" where
  "first_elem xs = (case xs of [] \<Rightarrow> None | x # _ \<Rightarrow> Some x)"

record ChartEntry =
  entry_name :: string
  entry_kurse :: nat

text \<open>
  \<^verbatim>\<open>dozenten.map(d => {
    const count = kurse.filter(k => extractRecordId(k.fields.dozent) === d.record_id).length;
    return { name: d.fields.name?.split(' ')[0] || 'N/A', kurse: count };
  }).filter(d => d.kurse > 0)\<close>
\<close>

definition kursCount :: "extractor \<Rightarrow> 'n Kurse list \<Rightarrow> Dozenten \<Rightarrow> nat" where
  "kursCount ext kurse d = length (filter (\<lambda>k. ext (dozent k) = Some (d_record_id d)) kurse)"

definition dozentLabel :: "Dozenten \<Rightarrow> string" where
  "dozentLabel d =
     str_or (opt_field (d_name d) (\<lambda>n. first_elem (split (CHR '' '') n))) ''N/A''"

definition kursPerDozent :: "extractor \<Rightarrow> Dozenten list \<Rightarrow> 'n Kurse list \<Rightarrow> ChartEntry list" where
  "kursPerDozent ext dozenten kurse =
     filter (\<lambda>d. entry_kurse d > 0)
       (map (\<lambda>d. let count = kursCount ext kurse d
                  in \<lparr>entry_name = dozentLabel d, entry_kurse = count\<rparr>) dozenten)"

text \<open>
  The label as the spec words it: the first whitespace-delimited token of the name,
  and the fallback label only for an absent name.
\<close>

definition is_space :: "char \<Rightarrow> bool" where
  "is_space c = (c = CHR '' '' \<or> c = CHR 0x09 \<or> c = CHR 0x0A \<or> c = CHR 0x0D)"

definition first_token :: "string \<Rightarrow> string" where
  "first_token s = takeWhile (\<lambda>c. \<not> is_space c) (dropWhile is_space s)"

definition spec_label :: "Dozenten \<Rightarrow> string" where
  "spec_label d = (case d_name d of None \<Rightarrow> ''N/A'' | Some n \<Rightarrow> first_token n)"

subsection \<open>Name and title lookups\<close>

text \<open>
  \<^verbatim>\<open>const getTeilnehmerName = (url) => {
    const id = extractRecordId(url);
    return teilnehmer.find(t => t.record_id === id)?.fields.name || '-';
  };\<close>
  and the same for \<open>getKursTitel\<close> over \<open>kurse\<close> and \<open>titel\<close>.
\<close>

definition getTeilnehmerName :: "extractor \<Rightarrow> Teilnehmer list \<Rightarrow> string option \<Rightarrow> string" where
  "getTeilnehmerName ext participants url =
     (let id = ext url
      in str_or (opt_field (find (\<lambda>t. Some (t_record_id t) = id) participants) t_name) ''-'')"

definition getKursTitel :: "extractor \<Rightarrow> 'n Kurse list \<Rightarrow> string option \<Rightarrow> string" where
  "getKursTitel ext kurse url =
     (let id = ext url
      in str_or (opt_field (findKurs kurse id) titel) ''-'')"

subsection \<open>Recent enrollments\<close>

text \<open>
  \<open>Array.prototype.sort\<close> with a comparator: \<open>a\<close> goes before \<open>b\<close> when the comparator is
  negative, and elements that compare equal keep their order (the sort is stable). Any
  stable sort gives the same array for a consistent comparator; it is written here as
  insertion from the right, each element going in front of the first one it does not
  have to follow.
\<close>

fun insert_by :: "('a \<Rightarrow> 'a \<Rightarrow> int) \<Rightarrow> 'a \<Rightarrow> 'a list \<Rightarrow> 'a list" where
  "insert_by cmp x [] = [x]"
| "insert_by cmp x (y # ys) =
     (if cmp x y \<le> 0 then x # y # ys else y # insert_by cmp x ys)"

fun sort_by :: "('a \<Rightarrow> 'a \<Rightarrow> int) \<Rightarrow> 'a list \<Rightarrow> 'a list" where
  "sort_by cmp [] = []"
| "sort_by cmp (x # xs) = insert_by cmp x (sort_by cmp xs)"

text \<open>
  \<^verbatim>\<open>[...anmeldungen].sort((a, b) => {
    const dateA = a.fields.anmeldedatum || '';
    const dateB = b.fields.anmeldedatum || '';
    return dateB.localeCompare(dateA);
  }).slice(0, 5)\<close>
  \<open>localeCompare\<close> is the platform's string comparison, with a negative, zero or positive
  result; it is a parameter.
\<close>

definition compareAnmeldungen :: "(string \<Rightarrow> string \<Rightarrow> int) \<Rightarrow> Anmeldungen \<Rightarrow> Anmeldungen \<Rightarrow> int" where
  "compareAnmeldungen localeCompare a b =
     (let dateA = str_or (anmeldedatum a) '''';
          dateB = str_or (anmeldedatum b) ''''
      in localeCompare dateB dateA)"

definition recentAnmeldungen :: "(string \<Rightarrow> string \<Rightarrow> int) \<Rightarrow> Anmeldungen list \<Rightarrow> Anmeldungen list" where
  "recentAnmeldungen localeCompare anmeldungen =
     take 5 (sort_by (compareAnmeldungen localeCompare) anmeldungen)"

text \<open>The date an enrollment is sorted by, a missing date read as the empty string.\<close>

definition date_of :: "Anmeldungen \<Rightarrow> string" where
  "date_of a = (case anmeldedatum a of None \<Rightarrow> [] | Some s \<Rightarrow> s)"

text \<open>
  The comparison the spec names: lexicographic on the characters of the two strings.
  A comparator agrees with it on a set of strings when its results there have the
  same sign.
\<close>

definition lexCompare :: "string \<Rightarrow> string \<Rightarrow> int" where
  "lexCompare a b = (if a < b then - 1 else if a = b then 0 else 1)"

definition agrees_on :: "string set \<Rightarrow> (string \<Rightarrow> string \<Rightarrow> int) \<Rightarrow> bool" where
  "agrees_on D localeCompare = (\<forall>x\<in>D. \<forall>y\<in>D. sgn (localeCompare x y) = lexCompare x y)"

text \<open>
  \<open>String.prototype.localeCompare\<close> does not compare character codes: it follows the
  collation order of the platform's locale data. On the characters of ISO-8601
  timestamps that order puts the punctuation \<open>-\<close>, \<open>:\<close> and \<open>.\<close> first, then the symbol
  \<open>+\<close>, then the digits, then the letters \<open>T\<close> and \<open>Z\<close>, whereas by character code \<open>+\<close>
  is below \<open>-\<close> and \<open>:\<close> is above the digits. \<open>collation_rank\<close> gives this order on these
  characters (the remaining characters follow in code order, of which nothing is used),
  and \<open>iso_localeCompare\<close> compares two such strings rank by rank, a proper prefix first.
\<close>

definition collation_rank :: "char \<Rightarrow> nat" where
  "collation_rank c =
     (if c = CHR ''-'' then 0 else if c = CHR '':'' then 1 else if c = CHR ''.'' then 2
      else if c = CHR ''+'' then 3 else 4 + of_char c)"

fun iso_localeCompare :: "string \<Rightarrow> string \<Rightarrow> int" where
  "iso_localeCompare [] [] = 0"
| "iso_localeCompare [] (y # ys) = - 1"
| "iso_localeCompare (x # xs) [] = 1"
| "iso_localeCompare (x # xs) (y # ys) =
     (if collation_rank x < collation_rank y then - 1
      else if collation_rank y < collation_rank x then 1
      else iso_localeCompare xs ys)"

text \<open>A plain date: digits and \<open>-\<close> only, as in YYYY-MM-DD.\<close>

definition plain_date :: "string \<Rightarrow> bool" where
  "plain_date s = (\<forall>c\<in>set s. c = CHR ''-'' \<or> (CHR ''0'' \<le> c \<and> c \<le> CHR ''9''))"

section \<open>Loading the collections\<close>

text \<open>
  \<^verbatim>\<open>async function loadData() {
    try {
      const [d, r, t, k, a] = await Promise.all([
        LivingAppsService.getDozenten(), LivingAppsService.getRaeume(),
        LivingAppsService.getTeilnehmer(), LivingAppsService.getKurse(),
        LivingAppsService.getAnmeldungen(),
      ]);
      setDozenten(d); setRaeume(r); setTeilnehmer(t); setKurse(k); setAnmeldungen(a);
    } catch (e) {
      console.error('Failed to load:', e);
    } finally {
      setLoading(false);
    }
  }\<close>
  The outcome of each of the five requests is a collection or a rejection reason. The
  state of the view holds the five collections and the loading flag; the lines written
  by \<open>console.error\<close> and the requests issued to the service are recorded beside them.
  The order in which the requests settle is the parameter \<open>settled\<close>.
\<close>

datatype request = GetDozenten | GetRaeume | GetTeilnehmer | GetKurse | GetAnmeldungen

record 'n responses =
  getDozenten :: "string + Dozenten list"
  getRaeume :: "string + Raeume list"
  getTeilnehmer :: "string + Teilnehmer list"
  getKurse :: "string + 'n Kurse list"
  getAnmeldungen :: "string + Anmeldungen list"

record 'n view =
  st_dozenten :: "Dozenten list"
  st_raeume :: "Raeume list"
  st_teilnehmer :: "Teilnehmer list"
  st_kurse :: "'n Kurse list"
  st_anmeldungen :: "Anmeldungen list"
  loading :: bool
  console :: "(string \<times> string) list"
  requests :: "request list"

text \<open>The state after the \<open>useState\<close> calls: empty collections, loading.\<close>

definition initial_view :: "'n view" where
  "initial_view =
     \<lparr>st_dozenten = [], st_raeume = [], st_teilnehmer = [], st_kurse = [],
      st_anmeldungen = [], loading = True, console = [], requests = []\<rparr>"

text \<open>The reason a request was rejected with, when it was rejected.\<close>

definition rejection :: "'n responses \<Rightarrow> request \<Rightarrow> string option" where
  "rejection res q =
     (case q of
        GetDozenten \<Rightarrow> (case getDozenten res of Inl e \<Rightarrow> Some e | Inr _ \<Rightarrow> None)
      | GetRaeume \<Rightarrow> (case getRaeume res of Inl e \<Rightarrow> Some e | Inr _ \<Rightarrow> None)
      | GetTeilnehmer \<Rightarrow> (case getTeilnehmer res of Inl e \<Rightarrow> Some e | Inr _ \<Rightarrow> None)
      | GetKurse \<Rightarrow> (case getKurse res of Inl e \<Rightarrow> Some e | Inr _ \<Rightarrow> None)
      | GetAnmeldungen \<Rightarrow> (case getAnmeldungen res of Inl e \<Rightarrow> Some e | Inr _ \<Rightarrow> None))"

text \<open>
  \<open>Promise.all\<close> rejects as soon as one request is rejected, with the reason of that
  request: the first rejected one in the order of settling. A request that \<open>settled\<close>
  does not list settles after the listed ones, in the order of the array. When no
  request is rejected, \<open>Promise.all\<close> fulfils with the five collections in the order of
  the array.
\<close>

definition promise_all ::
  "'n responses \<Rightarrow> request list \<Rightarrow>
   string + (Dozenten list \<times> Raeume list \<times> Teilnehmer list \<times> 'n Kurse list \<times> Anmeldungen list)" where
  "promise_all res settled =
     (case List.map_filter (rejection res)
             (settled @ [GetDozenten, GetRaeume, GetTeilnehmer, GetKurse, GetAnmeldungen]) of
        e # _ \<Rightarrow> Inl e
      | [] \<Rightarrow>
         (case getDozenten res of Inl e \<Rightarrow> Inl e | Inr d \<Rightarrow>
          (case getRaeume res of Inl e \<Rightarrow> Inl e | Inr r \<Rightarrow>
           (case getTeilnehmer res of Inl e \<Rightarrow> Inl e | Inr t \<Rightarrow>
            (case getKurse res of Inl e \<Rightarrow> Inl e | Inr k \<Rightarrow>
             (case getAnmeldungen res of Inl e \<Rightarrow> Inl e | Inr a \<Rightarrow> Inr (d, r, t, k, a)))))))"

definition loadData :: "'n responses \<Rightarrow> request list \<Rightarrow> 'n view \<Rightarrow> 'n view" where
  "loadData res settled v =
     (let v1 = v\<lparr>requests := requests v @
                  [GetDozenten, GetRaeume, GetTeilnehmer, GetKurse, GetAnmeldungen]\<rparr>;
          v2 = (case promise_all res settled of
                  Inr (d, r, t, k, a) \<Rightarrow>
                    v1\<lparr>st_dozenten := d, st_raeume := r, st_teilnehmer := t, st_kurse := k,
                       st_anmeldungen := a\<rparr>
                | Inl e \<Rightarrow> v1\<lparr>console := console v1 @ [(''Failed to load:'', e)]\<rparr>)
      in v2\<lparr>loading := False\<rparr>)"

section \<open>Properties\<close>

subsection \<open>Total revenue\<close>

lemma find_as_filter:
  "find P xs = (case filter P xs of [] \<Rightarrow> None | x # _ \<Rightarrow> Some x)"
  by (induction xs) simp_all

lemma revenue_step:
  "num_or falsy (opt_field (findKurs kurse (ext (kurs a))) preis) 0 =
   spec_contribution falsy ext kurse a"
  by (cases "ext (kurs a)")
     (auto simp: num_or_def opt_field_def findKurs_def spec_contribution_def find_as_filter
           split: list.splits option.splits)

lemma foldl_step_map: "foldl (\<lambda>s a. s + f a) c xs = foldl (+) c (map f xs)"
  by (induction xs arbitrary: c) simp_all

lemma totalRevenue_append:
  "totalRevenue falsy ext kurse (xs @ ys) =
   foldl (\<lambda>s a. s + spec_contribution falsy ext kurse a) (totalRevenue falsy ext kurse xs) ys"
  by (simp add: totalRevenue_def Let_def revenue_step)

text \<open>Where addition is associative with neutral 0, the sum from the left is the sum.\<close>

lemma left_sum_exact: "left_sum ns = sum_list (ns :: 'a::monoid_add list)"
proof -
  have "foldl (+) c ns = c + sum_list ns" for c :: 'a
    by (induction ns arbitrary: c) (simp_all add: add.assoc)
  then show ?thesis
    by (simp add: left_sum_def)
qed

text \<open>
  C1: the total revenue is the sum of what the enrollments add, each the price of the
  course that its extracted reference resolves to by identifier equality and 0 when it
  resolves to none; for no enrollments it is 0. The sum is taken as the program takes
  it, from 0 and from left to right with the addition of the numbers; no law of
  addition is used, so this holds of the rounding addition of doubles.
\<close>

theorem totalRevenue_is_sum:
  "totalRevenue falsy ext kurse anmeldungen =
     left_sum (map (spec_contribution falsy ext kurse) anmeldungen)
   \<and> totalRevenue falsy ext kurse [] = 0"
proof
  have "totalRevenue falsy ext kurse anmeldungen =
      foldl (\<lambda>s a. s + spec_contribution falsy ext kurse a) 0 anmeldungen"
    by (simp add: totalRevenue_def Let_def revenue_step)
  also have "\<dots> = foldl (+) 0 (map (spec_contribution falsy ext kurse) anmeldungen)"
    by (rule foldl_step_map)
  finally show "totalRevenue falsy ext kurse anmeldungen =
      left_sum (map (spec_contribution falsy ext kurse) anmeldungen)"
    by (simp only: left_sum_def)
  show "totalRevenue falsy ext kurse [] = 0"
    by (simp add: totalRevenue_def)
qed

text \<open>
  C2: the paid count is the number of enrollments whose paid flag is true, the unpaid
  count is the total minus the paid count, and the two add up to the number of
  enrollments, also for the empty collection.
\<close>

theorem paid_unpaid_partition:
  "paidCount anmeldungen = card {i. i < length anmeldungen \<and> bezahlt (anmeldungen ! i) = Some True}
   \<and> unpaidCount anmeldungen = int (length anmeldungen) - int (paidCount anmeldungen)
   \<and> int (paidCount anmeldungen) + unpaidCount anmeldungen = int (length anmeldungen)
   \<and> paidCount [] = 0 \<and> unpaidCount [] = 0"
proof -
  have "truthy_bool v = (v = Some True)" for v
    by (cases v) (simp_all add: truthy_bool_def)
  then have "paidCount anmeldungen =
      card {i. i < length anmeldungen \<and> bezahlt (anmeldungen ! i) = Some True}"
    by (simp add: paidCount_def length_filter_conv_card)
  then show ?thesis
    by (simp add: unpaidCount_def paidCount_def)
qed

text \<open>
  C9: an enrollment whose reference resolves to a course without a price, or with
  price 0 (or another falsy number), adds 0 to the running total. So wherever it stands
  in the collection, the total revenue is the same as without it, given that adding 0
  leaves the running total at that place as it is.
\<close>

theorem totalRevenue_missing_price:
  assumes "findKurs kurse (ext (kurs a)) = Some k"
    and "preis k = None \<or> preis k = Some 0 \<or> (\<exists>p. preis k = Some p \<and> falsy p)"
  shows "totalRevenue falsy ext kurse (xs @ [a]) = totalRevenue falsy ext kurse xs + 0
    \<and> (totalRevenue falsy ext kurse xs + 0 = totalRevenue falsy ext kurse xs
        \<longrightarrow> totalRevenue falsy ext kurse (xs @ a # ys) = totalRevenue falsy ext kurse (xs @ ys))"
proof -
  from assms have "num_or falsy (opt_field (findKurs kurse (ext (kurs a))) preis) 0 = 0"
    by (auto simp: num_or_def opt_field_def)
  then have zero: "spec_contribution falsy ext kurse a = 0"
    by (simp add: revenue_step)
  have "totalRevenue falsy ext kurse (xs @ a # ys) =
      foldl (\<lambda>s a. s + spec_contribution falsy ext kurse a)
        (totalRevenue falsy ext kurse xs + 0) ys"
    using totalRevenue_append [of falsy ext kurse xs "a # ys"] by (simp add: zero)
  moreover have "totalRevenue falsy ext kurse (xs @ [a]) = totalRevenue falsy ext kurse xs + 0"
    using totalRevenue_append [of falsy ext kurse xs "[a]"] by (simp add: zero)
  ultimately show ?thesis
    by (simp add: totalRevenue_append)
qed

theorem totalRevenue_missing_price_witness:
  "totalRevenue (\<lambda>n. n = 0) (\<lambda>r. r)
       [\<lparr>k_record_id = ''k1'', titel = None, preis = (None::int option), enddatum = None, dozent = None\<rparr>,
        \<lparr>k_record_id = ''k2'', titel = None, preis = Some (50::int), enddatum = None, dozent = None\<rparr>]
     [\<lparr>a_record_id = ''a1'', teilnehmer = None, kurs = Some ''k2'', anmeldedatum = None, bezahlt = None\<rparr>,
      \<lparr>a_record_id = ''a2'', teilnehmer = None, kurs = Some ''k1'', anmeldedatum = None, bezahlt = None\<rparr>]
   = 50"
proof -
  let ?k1 = "\<lparr>k_record_id = ''k1'', titel = None, preis = (None::int option), enddatum = None, dozent = None\<rparr>"
  let ?k2 = "\<lparr>k_record_id = ''k2'', titel = None, preis = Some (50::int), enddatum = None, dozent = None\<rparr>"
  let ?a1 = "\<lparr>a_record_id = ''a1'', teilnehmer = None, kurs = Some ''k2'', anmeldedatum = None, bezahlt = None\<rparr>"
  let ?a2 = "\<lparr>a_record_id = ''a2'', teilnehmer = None, kurs = Some ''k1'', anmeldedatum = None, bezahlt = None\<rparr>"
  have found: "findKurs [?k1, ?k2] ((\<lambda>r. r) (kurs ?a2)) = Some ?k1"
    by (simp add: findKurs_def)
  have unpriced: "preis ?k1 = None \<or> preis ?k1 = Some 0 \<or> (\<exists>p. preis ?k1 = Some p \<and> p = 0)"
    by simp
  have before: "totalRevenue (\<lambda>n. n = 0) (\<lambda>r. r) [?k1, ?k2] [?a1] = 50"
    by (simp add: totalRevenue_def findKurs_def num_or_def opt_field_def)
  from totalRevenue_missing_price [of "[?k1, ?k2]" "\<lambda>r. r" ?a2 ?k1 "\<lambda>n. n = 0" "[?a1]" "[]",
      OF found unpriced]
  have "totalRevenue (\<lambda>n. n = 0) (\<lambda>r. r) [?k1, ?k2] [?a1] + 0 =
        totalRevenue (\<lambda>n. n = 0) (\<lambda>r. r) [?k1, ?k2] [?a1]
      \<longrightarrow> totalRevenue (\<lambda>n. n = 0) (\<lambda>r. r) [?k1, ?k2] ([?a1] @ ?a2 # []) =
        totalRevenue (\<lambda>n. n = 0) (\<lambda>r. r) [?k1, ?k2] ([?a1] @ [])"
    by (rule conjunct2)
  with before show ?thesis by simp
qed

text \<open>
  C5: the active courses are exactly the courses, in their order, whose end date is
  present (a non-empty string), parses to a valid date and is strictly later than the
  clock reading; a course without an end date is never among them.
\<close>

theorem activeKurse_exact:
  "activeKurse parseISO now kurse =
     filter (\<lambda>k. \<exists>e t. enddatum k = Some e \<and> e \<noteq> [] \<and> parseISO e = Some t \<and> now < t) kurse
   \<and> (\<forall>k. enddatum k = None \<longrightarrow> k \<notin> set (activeKurse parseISO now kurse))"
proof
  have "isActive parseISO now =
      (\<lambda>k. \<exists>e t. enddatum k = Some e \<and> e \<noteq> [] \<and> parseISO e = Some t \<and> now < t)"
    by (auto simp: fun_eq_iff isActive_def isAfter_def split: option.splits)
  then show "activeKurse parseISO now kurse =
     filter (\<lambda>k. \<exists>e t. enddatum k = Some e \<and> e \<noteq> [] \<and> parseISO e = Some t \<and> now < t) kurse"
    unfolding activeKurse_def by (rule arg_cong)
  show "\<forall>k. enddatum k = None \<longrightarrow> k \<notin> set (activeKurse parseISO now kurse)"
    by (simp add: activeKurse_def isActive_def)
qed

theorem activeKurse_exact_witness:
  "activeKurse (\<lambda>s. if s = ''2030-01-01'' then Some 1893456000000 else None) 1700000000000
     [\<lparr>k_record_id = ''k1'', titel = None, preis = (None::int option), enddatum = None, dozent = None\<rparr>,
      \<lparr>k_record_id = ''k2'', titel = None, preis = (None::int option), enddatum = Some ''2030-01-01'', dozent = None\<rparr>]
   = [\<lparr>k_record_id = ''k2'', titel = None, preis = (None::int option), enddatum = Some ''2030-01-01'', dozent = None\<rparr>]
   \<and> \<lparr>k_record_id = ''k1'', titel = None, preis = (None::int option), enddatum = None, dozent = None\<rparr>
      \<notin> set (activeKurse (\<lambda>s. if s = ''2030-01-01'' then Some 1893456000000 else None) 1700000000000
     [\<lparr>k_record_id = ''k1'', titel = None, preis = (None::int option), enddatum = None, dozent = None\<rparr>,
      \<lparr>k_record_id = ''k2'', titel = None, preis = (None::int option), enddatum = Some ''2030-01-01'', dozent = None\<rparr>])"
  using activeKurse_exact [of "\<lambda>s. if s = ''2030-01-01'' then Some 1893456000000 else None" 1700000000000
     "[\<lparr>k_record_id = ''k1'', titel = None, preis = (None::int option), enddatum = None, dozent = None\<rparr>,
      \<lparr>k_record_id = ''k2'', titel = None, preis = (None::int option), enddatum = Some ''2030-01-01'', dozent = None\<rparr>]"]
  by simp

subsection \<open>Lookups\<close>

lemma find_none_iff: "find P xs = None \<longleftrightarrow> (\<forall>x\<in>set xs. \<not> P x)"
  by (induction xs) simp_all

lemma find_first_match:
  "\<forall>p\<in>set pre. \<not> P p \<Longrightarrow> P x \<Longrightarrow> find P (pre @ x # post) = Some x"
  by (induction pre) simp_all

text \<open>
  C7: both lookups extract the identifier from the reference and take the first record
  of their collection with that identifier; they return its name (its title) when that
  is a non-empty string, and the placeholder "-" when no record has the identifier. A
  result is returned in every case.
\<close>

theorem lookup_placeholder_when_unresolved:
  "((\<forall>t\<in>set participants. Some (t_record_id t) \<noteq> ext url)
      \<longrightarrow> getTeilnehmerName ext participants url = ''-'')
   \<and> ((\<forall>k\<in>set kurse. Some (k_record_id k) \<noteq> ext url)
      \<longrightarrow> getKursTitel ext kurse url = ''-'')
   \<and> ((\<forall>p\<in>set pre. Some (t_record_id p) \<noteq> ext url) \<and> Some (t_record_id t) = ext url
        \<and> t_name t = Some n \<and> n \<noteq> []
      \<longrightarrow> getTeilnehmerName ext (pre @ t # post) url = n)
   \<and> ((\<forall>p\<in>set kpre. Some (k_record_id p) \<noteq> ext url) \<and> Some (k_record_id k) = ext url
        \<and> titel k = Some m \<and> m \<noteq> []
      \<longrightarrow> getKursTitel ext (kpre @ k # kpost) url = m)"
proof (intro conjI impI)
  assume "\<forall>t\<in>set participants. Some (t_record_id t) \<noteq> ext url"
  then have "find (\<lambda>t. Some (t_record_id t) = ext url) participants = None"
    by (simp add: find_none_iff)
  then show "getTeilnehmerName ext participants url = ''-''"
    by (simp add: getTeilnehmerName_def opt_field_def str_or_def)
next
  assume "\<forall>k\<in>set kurse. Some (k_record_id k) \<noteq> ext url"
  then have "find (\<lambda>k. Some (k_record_id k) = ext url) kurse = None"
    by (simp add: find_none_iff)
  then show "getKursTitel ext kurse url = ''-''"
    by (simp add: getKursTitel_def findKurs_def opt_field_def str_or_def)
next
  assume a: "(\<forall>p\<in>set pre. Some (t_record_id p) \<noteq> ext url) \<and> Some (t_record_id t) = ext url
        \<and> t_name t = Some n \<and> n \<noteq> []"
  then have "find (\<lambda>t. Some (t_record_id t) = ext url) (pre @ t # post) = Some t"
    by (intro find_first_match) simp_all
  with a show "getTeilnehmerName ext (pre @ t # post) url = n"
    by (simp add: getTeilnehmerName_def opt_field_def str_or_def)
next
  assume a: "(\<forall>p\<in>set kpre. Some (k_record_id p) \<noteq> ext url) \<and> Some (k_record_id k) = ext url
        \<and> titel k = Some m \<and> m \<noteq> []"
  then have "find (\<lambda>k. Some (k_record_id k) = ext url) (kpre @ k # kpost) = Some k"
    by (intro find_first_match) simp_all
  with a show "getKursTitel ext (kpre @ k # kpost) url = m"
    by (simp add: getKursTitel_def findKurs_def opt_field_def str_or_def)
qed

theorem lookup_placeholder_when_unresolved_witness:
  "getTeilnehmerName (\<lambda>r. r) [\<lparr>t_record_id = ''t1'', t_name = Some ''Eva Berg''\<rparr>] (Some ''t9'') = ''-''
   \<and> getKursTitel (\<lambda>r. r)
        [\<lparr>k_record_id = ''k1'', titel = Some ''Yoga'', preis = (None::int option), enddatum = None, dozent = None\<rparr>]
        None = ''-''
   \<and> getTeilnehmerName (\<lambda>r. r)
        ([\<lparr>t_record_id = ''t0'', t_name = None\<rparr>] @ \<lparr>t_record_id = ''t1'', t_name = Some ''Eva Berg''\<rparr> # [])
        (Some ''t1'') = ''Eva Berg''
   \<and> getKursTitel (\<lambda>r. r)
        ([] @ \<lparr>k_record_id = ''k1'', titel = Some ''Yoga'', preis = (None::int option), enddatum = None, dozent = None\<rparr> # [])
        (Some ''k1'') = ''Yoga''"
  using lookup_placeholder_when_unresolved [where ext = "\<lambda>r. r" and url = "Some ''t9''"
      and participants = "[\<lparr>t_record_id = ''t1'', t_name = Some ''Eva Berg''\<rparr>]",
      THEN conjunct1]
    lookup_placeholder_when_unresolved [where ext = "\<lambda>r. r" and url = "None"
      and kurse = "[\<lparr>k_record_id = ''k1'', titel = Some ''Yoga'', preis = (None::int option), enddatum = None, dozent = None\<rparr>]",
      THEN conjunct2, THEN conjunct1]
    lookup_placeholder_when_unresolved [where ext = "\<lambda>r. r" and url = "Some ''t1''"
      and pre = "[\<lparr>t_record_id = ''t0'', t_name = None\<rparr>]"
      and t = "\<lparr>t_record_id = ''t1'', t_name = Some ''Eva Berg''\<rparr>"
      and n = "''Eva Berg''" and post = "[]",
      THEN conjunct2, THEN conjunct2, THEN conjunct1]
    lookup_placeholder_when_unresolved [where ext = "\<lambda>r. r" and url = "Some ''k1''"
      and kpre = "[]" and kpost = "[]" and m = "''Yoga''"
      and k = "\<lparr>k_record_id = ''k1'', titel = Some ''Yoga'', preis = (None::int option), enddatum = None, dozent = None\<rparr>",
      THEN conjunct2, THEN conjunct2, THEN conjunct2]
  by simp

text \<open>
  C10: both lookups also return the placeholder "-" when the reference resolves to a
  record whose name (title) is absent or the empty string.
\<close>

theorem lookup_placeholder_when_unnamed:
  "((\<forall>p\<in>set pre. Some (t_record_id p) \<noteq> ext url) \<and> Some (t_record_id t) = ext url
        \<and> (t_name t = None \<or> t_name t = Some [])
      \<longrightarrow> getTeilnehmerName ext (pre @ t # post) url = ''-'')
   \<and> ((\<forall>p\<in>set kpre. Some (k_record_id p) \<noteq> ext url) \<and> Some (k_record_id k) = ext url
        \<and> (titel k = None \<or> titel k = Some [])
      \<longrightarrow> getKursTitel ext (kpre @ k # kpost) url = ''-'')"
proof (intro conjI impI)
  assume a: "(\<forall>p\<in>set pre. Some (t_record_id p) \<noteq> ext url) \<and> Some (t_record_id t) = ext url
        \<and> (t_name t = None \<or> t_name t = Some [])"
  then have "find (\<lambda>t. Some (t_record_id t) = ext url) (pre @ t # post) = Some t"
    by (intro find_first_match) simp_all
  with a show "getTeilnehmerName ext (pre @ t # post) url = ''-''"
    by (auto simp: getTeilnehmerName_def opt_field_def str_or_def)
next
  assume a: "(\<forall>p\<in>set kpre. Some (k_record_id p) \<noteq> ext url) \<and> Some (k_record_id k) = ext url
        \<and> (titel k = None \<or> titel k = Some [])"
  then have "find (\<lambda>k. Some (k_record_id k) = ext url) (kpre @ k # kpost) = Some k"
    by (intro find_first_match) simp_all
  with a show "getKursTitel ext (kpre @ k # kpost) url = ''-''"
    by (auto simp: getKursTitel_def findKurs_def opt_field_def str_or_def)
qed

theorem lookup_placeholder_when_unnamed_witness:
  "getTeilnehmerName (\<lambda>r. r)
        ([\<lparr>t_record_id = ''t0'', t_name = Some ''Ole''\<rparr>] @ \<lparr>t_record_id = ''t1'', t_name = Some []\<rparr> # [])
        (Some ''t1'') = ''-''
   \<and> getKursTitel (\<lambda>r. r)
        ([] @ \<lparr>k_record_id = ''k1'', titel = None, preis = (None::int option), enddatum = None, dozent = None\<rparr> # [])
        (Some ''k1'') = ''-''"
  using lookup_placeholder_when_unnamed [where ext = "\<lambda>r. r" and url = "Some ''t1''"
      and pre = "[\<lparr>t_record_id = ''t0'', t_name = Some ''Ole''\<rparr>]"
      and t = "\<lparr>t_record_id = ''t1'', t_name = Some []\<rparr>" and post = "[]",
      THEN conjunct1]
    lookup_placeholder_when_unnamed [where ext = "\<lambda>r. r" and url = "Some ''k1''"
      and kpre = "[]" and kpost = "[]"
      and k = "\<lparr>k_record_id = ''k1'', titel = None, preis = (None::int option), enddatum = None, dozent = None\<rparr>",
      THEN conjunct2]
  by simp

subsection \<open>Courses per instructor\<close>

lemma split_nonempty: "split sep s \<noteq> []"
  by (induction s) (simp_all split: list.splits)

lemma first_elem_split: "first_elem (split sep s) = Some (takeWhile (\<lambda>c. c \<noteq> sep) s)"
proof (induction s)
  case Nil
  show ?case by (simp add: first_elem_def)
next
  case (Cons c cs)
  then show ?case
    by (cases "split sep cs") (simp_all add: first_elem_def split_nonempty)
qed

lemma dozentLabel_eq:
  "dozentLabel d =
     (case d_name d of
        None \<Rightarrow> ''N/A''
      | Some n \<Rightarrow> if takeWhile (\<lambda>c. c \<noteq> CHR '' '') n = [] then ''N/A''
                  else takeWhile (\<lambda>c. c \<noteq> CHR '' '') n)"
  by (simp add: dozentLabel_def opt_field_def first_elem_split str_or_def split: option.splits)

lemma filter_map_entries:
  "filter (\<lambda>e. 0 < entry_kurse e) (map (\<lambda>d. \<lparr>entry_name = l d, entry_kurse = c d\<rparr>) ds) =
   map (\<lambda>d. \<lparr>entry_name = l d, entry_kurse = c d\<rparr>) (filter (\<lambda>d. 0 < c d) ds)"
  by (induction ds) simp_all

text \<open>
  C4, as the spec words it, fails: an instructor whose name starts with a space gets the
  fallback label although the name is present and has a first token. Identifier and
  reference are the same 24 hexadecimal digits, and the extractor returns them.
\<close>

theorem kursPerDozent_label_counterexample:
  "map entry_name
     (kursPerDozent (extractRecordId Some)
        [\<lparr>d_record_id = ''0123456789abcdef01234567'', d_name = Some '' Anna Schmidt''\<rparr>]
        [\<lparr>k_record_id = ''k1'', titel = None, preis = (None::int option), enddatum = None,
          dozent = Some ''0123456789abcdef01234567''\<rparr>])
   = [''N/A'']
   \<and> spec_label \<lparr>d_record_id = ''0123456789abcdef01234567'', d_name = Some '' Anna Schmidt''\<rparr>
   = ''Anna''
   \<and> map entry_name
     (kursPerDozent (extractRecordId Some)
        [\<lparr>d_record_id = ''0123456789abcdef01234567'', d_name = Some '' Anna Schmidt''\<rparr>]
        [\<lparr>k_record_id = ''k1'', titel = None, preis = (None::int option), enddatum = None,
          dozent = Some ''0123456789abcdef01234567''\<rparr>])
   \<noteq> [spec_label \<lparr>d_record_id = ''0123456789abcdef01234567'', d_name = Some '' Anna Schmidt''\<rparr>]"
  by (simp add: kursPerDozent_def kursCount_def extractRecordId_def dozentLabel_eq
        spec_label_def first_token_def is_space_def)

text \<open>
  C4, amended: the result has one entry for each instructor with at least one course whose
  extracted instructor reference is the instructor's identifier, in the instructors'
  order, with that number of courses as its count. The label is the part of the name
  before its first space when that part is not empty, and "N/A" otherwise (the name is
  absent, empty or starts with a space). No entry has count 0, and without courses the
  result is empty.
\<close>

theorem kursPerDozent_entries:
  "kursPerDozent ext dozenten kurse =
     map (\<lambda>d. \<lparr>entry_name =
                  (case d_name d of
                     None \<Rightarrow> ''N/A''
                   | Some n \<Rightarrow> if takeWhile (\<lambda>c. c \<noteq> CHR '' '') n = [] then ''N/A''
                               else takeWhile (\<lambda>c. c \<noteq> CHR '' '') n),
                entry_kurse = length (filter (\<lambda>k. ext (dozent k) = Some (d_record_id d)) kurse)\<rparr>)
       (filter (\<lambda>d. 0 < length (filter (\<lambda>k. ext (dozent k) = Some (d_record_id d)) kurse)) dozenten)
   \<and> (\<forall>e\<in>set (kursPerDozent ext dozenten kurse). 0 < entry_kurse e)
   \<and> kursPerDozent ext dozenten [] = []"
proof (intro conjI)
  have "kursPerDozent ext dozenten kurse =
      map (\<lambda>d. \<lparr>entry_name = dozentLabel d, entry_kurse = kursCount ext kurse d\<rparr>)
        (filter (\<lambda>d. 0 < kursCount ext kurse d) dozenten)"
    by (simp add: kursPerDozent_def Let_def filter_map_entries)
  then show "kursPerDozent ext dozenten kurse =
     map (\<lambda>d. \<lparr>entry_name =
                  (case d_name d of
                     None \<Rightarrow> ''N/A''
                   | Some n \<Rightarrow> if takeWhile (\<lambda>c. c \<noteq> CHR '' '') n = [] then ''N/A''
                               else takeWhile (\<lambda>c. c \<noteq> CHR '' '') n),
                entry_kurse = length (filter (\<lambda>k. ext (dozent k) = Some (d_record_id d)) kurse)\<rparr>)
       (filter (\<lambda>d. 0 < length (filter (\<lambda>k. ext (dozent k) = Some (d_record_id d)) kurse)) dozenten)"
    by (simp only: dozentLabel_eq kursCount_def)
  show "\<forall>e\<in>set (kursPerDozent ext dozenten kurse). 0 < entry_kurse e"
    by (simp add: kursPerDozent_def)
  show "kursPerDozent ext dozenten [] = []"
    by (simp add: kursPerDozent_def kursCount_def)
qed

theorem kursPerDozent_entries_witness:
  "kursPerDozent (extractRecordId Some)
     [\<lparr>d_record_id = ''d1'', d_name = Some ''Anna Schmidt''\<rparr>,
      \<lparr>d_record_id = ''d2'', d_name = Some ''Ben''\<rparr>,
      \<lparr>d_record_id = ''d3'', d_name = None\<rparr>]
     [\<lparr>k_record_id = ''k1'', titel = None, preis = (None::int option), enddatum = None, dozent = Some ''d1''\<rparr>,
      \<lparr>k_record_id = ''k2'', titel = None, preis = (None::int option), enddatum = None, dozent = Some ''d3''\<rparr>,
      \<lparr>k_record_id = ''k3'', titel = None, preis = (None::int option), enddatum = None, dozent = Some ''d1''\<rparr>]
   = [\<lparr>entry_name = ''Anna'', entry_kurse = 2\<rparr>, \<lparr>entry_name = ''N/A'', entry_kurse = 1\<rparr>]"
  using kursPerDozent_entries [THEN conjunct1, of "extractRecordId Some"
     "[\<lparr>d_record_id = ''d1'', d_name = Some ''Anna Schmidt''\<rparr>,
      \<lparr>d_record_id = ''d2'', d_name = Some ''Ben''\<rparr>,
      \<lparr>d_record_id = ''d3'', d_name = None\<rparr>]"
     "[\<lparr>k_record_id = ''k1'', titel = None, preis = (None::int option), enddatum = None, dozent = Some ''d1''\<rparr>,
      \<lparr>k_record_id = ''k2'', titel = None, preis = (None::int option), enddatum = None, dozent = Some ''d3''\<rparr>,
      \<lparr>k_record_id = ''k3'', titel = None, preis = (None::int option), enddatum = None, dozent = Some ''d1''\<rparr>]"]
  by (simp add: extractRecordId_def)

subsection \<open>Recent enrollments\<close>














text \<open>On plain dates the order of \<open>iso_localeCompare\<close> is the lexicographic one.\<close>

lemma rank_plain:
  assumes "c = CHR ''-'' \<or> (CHR ''0'' \<le> c \<and> c \<le> CHR ''9'')"
    and "d = CHR ''-'' \<or> (CHR ''0'' \<le> d \<and> d \<le> CHR ''9'')"
  shows "collation_rank c < collation_rank d \<longleftrightarrow> c < d"
  using assms
  by (auto simp: collation_rank_def less_char_def less_eq_char_def)

lemma iso_localeCompare_plain:
  "plain_date x \<Longrightarrow> plain_date y \<Longrightarrow> sgn (iso_localeCompare x y) = lexCompare x y"
proof (induction x y rule: iso_localeCompare.induct)
  case (4 x xs y ys)
  have xy: "collation_rank x < collation_rank y \<longleftrightarrow> x < y"
    and yx: "collation_rank y < collation_rank x \<longleftrightarrow> y < x"
    using 4(2,3) by (simp_all add: plain_date_def rank_plain)
  show ?case
  proof (cases "x = y")
    case True
    with 4 show ?thesis
      by (simp add: plain_date_def lexCompare_def)
  next
    case False
    then show ?thesis
      using xy yx by (auto simp: lexCompare_def)
  qed
qed (simp_all add: lexCompare_def)

lemma agrees_on_plain:
  "\<forall>a\<in>set anmeldungen. plain_date (date_of a) \<Longrightarrow>
   agrees_on (date_of ` set anmeldungen) iso_localeCompare"
  by (simp add: agrees_on_def iso_localeCompare_plain)




subsection \<open>A failed load\<close>

lemma map_filter_nonempty:
  "q \<in> set qs \<Longrightarrow> f q = Some e \<Longrightarrow> List.map_filter f qs \<noteq> []"
  by (induction qs) (auto simp: List.map_filter_simps split: option.splits)

lemma promise_all_rejects:
  assumes "isl (getDozenten res) \<or> isl (getRaeume res) \<or> isl (getTeilnehmer res)
      \<or> isl (getKurse res) \<or> isl (getAnmeldungen res)"
  shows "\<exists>e. promise_all res settled = Inl e"
proof -
  from assms consider
      (d) e where "getDozenten res = Inl e" | (r) e where "getRaeume res = Inl e"
    | (t) e where "getTeilnehmer res = Inl e" | (k) e where "getKurse res = Inl e"
    | (a) e where "getAnmeldungen res = Inl e"
    by (auto simp: isl_def)
  then obtain q e where "rejection res q = Some e"
  proof cases
    case d
    then have "rejection res GetDozenten = Some e" by (simp add: rejection_def)
    then show ?thesis by (rule that)
  next
    case r
    then have "rejection res GetRaeume = Some e" by (simp add: rejection_def)
    then show ?thesis by (rule that)
  next
    case t
    then have "rejection res GetTeilnehmer = Some e" by (simp add: rejection_def)
    then show ?thesis by (rule that)
  next
    case k
    then have "rejection res GetKurse = Some e" by (simp add: rejection_def)
    then show ?thesis by (rule that)
  next
    case a
    then have "rejection res GetAnmeldungen = Some e" by (simp add: rejection_def)
    then show ?thesis by (rule that)
  qed
  moreover have "q \<in> set (settled @ [GetDozenten, GetRaeume, GetTeilnehmer, GetKurse, GetAnmeldungen])"
    by (cases q) simp_all
  ultimately have "List.map_filter (rejection res)
      (settled @ [GetDozenten, GetRaeume, GetTeilnehmer, GetKurse, GetAnmeldungen]) \<noteq> []"
    by (rule map_filter_nonempty [rotated])
  then show ?thesis
    by (simp add: promise_all_def split: list.splits)
qed

text \<open>
  Two requests rejected: the reason on the console is that of the one settling first,
  not of the first in the array.
\<close>

lemma loadData_logs_first_settled:
  "console (loadData \<lparr>getDozenten = Inl ''slow'', getRaeume = Inr [], getTeilnehmer = Inr [],
              getKurse = (Inl ''fast'' :: string + int Kurse list), getAnmeldungen = Inr []\<rparr>
      [GetKurse, GetRaeume, GetTeilnehmer, GetAnmeldungen, GetDozenten] initial_view)
   = [(''Failed to load:'', ''fast'')]"
  by (simp add: loadData_def promise_all_def rejection_def initial_view_def
        List.map_filter_simps)

text \<open>All five requests fulfilled: the view holds the five collections.\<close>

lemma loadData_success:
  "loadData \<lparr>getDozenten = Inr d, getRaeume = Inr r, getTeilnehmer = Inr t,
             getKurse = Inr k, getAnmeldungen = Inr a\<rparr> settled initial_view
   = \<lparr>st_dozenten = d, st_raeume = r, st_teilnehmer = t, st_kurse = k, st_anmeldungen = a,
      loading = False, console = [],
      requests = [GetDozenten, GetRaeume, GetTeilnehmer, GetKurse, GetAnmeldungen]\<rparr>"
proof -
  have "rejection \<lparr>getDozenten = Inr d, getRaeume = Inr r, getTeilnehmer = Inr t,
             getKurse = Inr k, getAnmeldungen = Inr a\<rparr> q = None" for q
    by (cases q) (simp_all add: rejection_def)
  then have "List.map_filter (rejection \<lparr>getDozenten = Inr d, getRaeume = Inr r,
      getTeilnehmer = Inr t, getKurse = Inr k, getAnmeldungen = Inr a\<rparr>) qs = []" for qs
    by (induction qs) (simp_all add: List.map_filter_simps)
  then show ?thesis
    by (simp add: loadData_def promise_all_def initial_view_def)
qed

text \<open>
  C6: when any of the five requests is rejected, loading from the initial state leaves
  the five collections empty: the state differs from the initial one only in the
  loading flag, now off, in one line on the console and in the five requests, each
  issued once. Every derived value is then that of empty collections: revenue 0, counts
  0, no active course, no chart entry, no recent enrollment.
\<close>

theorem loadData_failure_keeps_empty:
  assumes "isl (getDozenten res) \<or> isl (getRaeume res) \<or> isl (getTeilnehmer res)
      \<or> isl (getKurse res) \<or> isl (getAnmeldungen res)"
  shows "(\<exists>e. loadData res settled initial_view =
            initial_view\<lparr>loading := False, console := [(''Failed to load:'', e)],
              requests := [GetDozenten, GetRaeume, GetTeilnehmer, GetKurse, GetAnmeldungen]\<rparr>)
    \<and> st_dozenten (loadData res settled initial_view) = []
    \<and> st_raeume (loadData res settled initial_view) = []
    \<and> st_teilnehmer (loadData res settled initial_view) = []
    \<and> st_kurse (loadData res settled initial_view) = []
    \<and> st_anmeldungen (loadData res settled initial_view) = []
    \<and> totalRevenue falsy ext (st_kurse (loadData res settled initial_view))
         (st_anmeldungen (loadData res settled initial_view)) = 0
    \<and> paidCount (st_anmeldungen (loadData res settled initial_view)) = 0
    \<and> unpaidCount (st_anmeldungen (loadData res settled initial_view)) = 0
    \<and> activeKurse parseISO now (st_kurse (loadData res settled initial_view)) = []
    \<and> kursPerDozent ext (st_dozenten (loadData res settled initial_view))
         (st_kurse (loadData res settled initial_view)) = []
    \<and> recentAnmeldungen localeCompare (st_anmeldungen (loadData res settled initial_view)) = []"
proof -
  from promise_all_rejects [OF assms] obtain e where e: "promise_all res settled = Inl e" ..
  then have v: "loadData res settled initial_view =
      initial_view\<lparr>loading := False, console := [(''Failed to load:'', e)],
        requests := [GetDozenten, GetRaeume, GetTeilnehmer, GetKurse, GetAnmeldungen]\<rparr>"
    by (simp add: loadData_def initial_view_def)
  have "totalRevenue falsy ext [] [] = 0" "paidCount [] = 0" "unpaidCount [] = 0"
    "activeKurse parseISO now [] = []" "kursPerDozent ext [] [] = []"
    "recentAnmeldungen localeCompare [] = []"
    by (simp_all add: totalRevenue_def paidCount_def unpaidCount_def activeKurse_def
          kursPerDozent_def recentAnmeldungen_def)
  with v show ?thesis
    by (simp add: initial_view_def)
qed

theorem loadData_failure_keeps_empty_witness:
  "isl (getKurse \<lparr>getDozenten = Inr [\<lparr>d_record_id = ''d1'', d_name = Some ''Anna''\<rparr>],
             getRaeume = Inr [], getTeilnehmer = Inr [],
             getKurse = (Inl ''503'' :: string + int Kurse list), getAnmeldungen = Inr []\<rparr>)
   \<and> st_dozenten (loadData \<lparr>getDozenten = Inr [\<lparr>d_record_id = ''d1'', d_name = Some ''Anna''\<rparr>],
             getRaeume = Inr [], getTeilnehmer = Inr [],
             getKurse = (Inl ''503'' :: string + int Kurse list), getAnmeldungen = Inr []\<rparr>
        [GetDozenten, GetRaeume, GetTeilnehmer, GetKurse, GetAnmeldungen] initial_view) = []
   \<and> kursPerDozent (extractRecordId Some)
        (st_dozenten (loadData \<lparr>getDozenten = Inr [\<lparr>d_record_id = ''d1'', d_name = Some ''Anna''\<rparr>],
             getRaeume = Inr [], getTeilnehmer = Inr [],
             getKurse = (Inl ''503'' :: string + int Kurse list), getAnmeldungen = Inr []\<rparr>
          [GetDozenten, GetRaeume, GetTeilnehmer, GetKurse, GetAnmeldungen] initial_view))
        (st_kurse (loadData \<lparr>getDozenten = Inr [\<lparr>d_record_id = ''d1'', d_name = Some ''Anna''\<rparr>],
             getRaeume = Inr [], getTeilnehmer = Inr [],
             getKurse = (Inl ''503'' :: string + int Kurse list), getAnmeldungen = Inr []\<rparr>
          [GetDozenten, GetRaeume, GetTeilnehmer, GetKurse, GetAnmeldungen] initial_view)) = []"
proof -
  let ?res = "\<lparr>getDozenten = Inr [\<lparr>d_record_id = ''d1'', d_name = Some ''Anna''\<rparr>],
             getRaeume = Inr [], getTeilnehmer = Inr [],
             getKurse = (Inl ''503'' :: string + int Kurse list), getAnmeldungen = Inr []\<rparr>"
  let ?settled = "[GetDozenten, GetRaeume, GetTeilnehmer, GetKurse, GetAnmeldungen]"
  have h: "isl (getDozenten ?res) \<or> isl (getRaeume ?res) \<or> isl (getTeilnehmer ?res)
      \<or> isl (getKurse ?res) \<or> isl (getAnmeldungen ?res)"
    by simp
  note r = loadData_failure_keeps_empty [OF h, where ext = "extractRecordId Some"
      and falsy = "\<lambda>n. n = 0" and settled = ?settled
      and parseISO = "\<lambda>s. None" and now = 0 and localeCompare = iso_localeCompare]
  have "isl (getKurse ?res)"
    by simp
  moreover from r have "st_dozenten (loadData ?res ?settled initial_view) = []"
    by (elim conjE)
  moreover from r have "kursPerDozent (extractRecordId Some)
      (st_dozenten (loadData ?res ?settled initial_view))
      (st_kurse (loadData ?res ?settled initial_view)) = []"
    by (elim conjE)
  ultimately show ?thesis
    by (intro conjI)
qed

subsection \<open>The scenarios of the spec\<close>

text \<open>
  Two courses priced 100 and 50 and three enrollments, for the first, the first and
  the second course, paid, unpaid and paid: the revenue is 250, two are paid and one
  is not. Two instructors and no course: the chart has no entry.
\<close>

lemma scenario_revenue_and_counts:
  "totalRevenue (\<lambda>n. n = 0) (extractRecordId Some)
     [\<lparr>k_record_id = ''A'', titel = None, preis = Some (100::int), enddatum = None, dozent = None\<rparr>,
      \<lparr>k_record_id = ''B'', titel = None, preis = Some 50, enddatum = None, dozent = None\<rparr>]
     (map (\<lambda>(k, p). \<lparr>a_record_id = [], teilnehmer = None, kurs = Some k, anmeldedatum = None, bezahlt = Some p\<rparr>)
        [(''A'', True), (''A'', False), (''B'', True)]) = 250
   \<and> paidCount
     (map (\<lambda>(k, p). \<lparr>a_record_id = [], teilnehmer = None, kurs = Some k, anmeldedatum = None, bezahlt = Some p\<rparr>)
        [(''A'', True), (''A'', False), (''B'', True)]) = 2
   \<and> unpaidCount
     (map (\<lambda>(k, p). \<lparr>a_record_id = [], teilnehmer = None, kurs = Some k, anmeldedatum = None, bezahlt = Some p\<rparr>)
        [(''A'', True), (''A'', False), (''B'', True)]) = 1"
  by (simp add: totalRevenue_def findKurs_def extractRecordId_def num_or_def opt_field_def
        paidCount_def unpaidCount_def truthy_bool_def)

lemma scenario_no_courses:
  "kursPerDozent (extractRecordId Some)
     [\<lparr>d_record_id = ''d1'', d_name = Some ''Anna Schmidt''\<rparr>,
      \<lparr>d_record_id = ''d2'', d_name = Some ''Ben Vogel''\<rparr>] ([] :: int Kurse list) = []"
  by (simp add: kursPerDozent_def kursCount_def)

end
